theory Spec2Isabelle
  imports Complex_Main
begin

section \<open>Values of the source language\<close>

text \<open>
  The component is written in TypeScript. A \<open>number\<close> is an IEEE double. A finite
  \<open>number\<close> is modelled as a rational number, the decimal value of the amount, which
  is all that the formatting below reads of it. \<open>NaN\<close> and the infinities are not
  numeric amounts; they and the sign of a zero are not modelled.
  A \<open>string\<close> is a list of characters; the one character of the source outside ASCII
  (the multiplication sign of the delete button) is written as its two UTF-8 bytes.
\<close>

type_synonym number = rat

subsection \<open>Decimal digits\<close>

definition digit_char :: "nat \<Rightarrow> char" where
  "digit_char n = ''0123456789'' ! (n mod 10)"

definition is_digit :: "char \<Rightarrow> bool" where
  "is_digit c = (c \<in> set ''0123456789'')"

definition digit_val :: "char \<Rightarrow> int" where
  "digit_val c = int (of_char c) - 48"

fun dec :: "nat \<Rightarrow> string" where
  "dec n = (if n < 10 then [digit_char n] else dec (n div 10) @ [digit_char (n mod 10)])"

declare dec.simps [simp del]

section \<open>The platform: ECMAScript built-ins the component calls\<close>

text \<open>
  The component formats its two display strings with built-ins of the JavaScript
  runtime, \<open>Intl.NumberFormat\<close> and \<open>Date\<close>. Their code is the runtime's and is not
  in the repository; this section models them, for exactly the arguments the source
  passes, from what the spec says of the two strings and, where the spec is silent,
  from the standards that define the built-ins (ECMA-262 and ECMA-402).
\<close>

subsection \<open>Intl.NumberFormat('en-US', {style: 'currency', currency: 'USD'}).format\<close>

text \<open>
  Modelled from the spec: the formatter \<open>Intl.NumberFormat\<close>, whose code is not in the
  repository. The spec has "locale-aware currency formatting (US dollars, two-decimal,
  symbol-prefixed)", with \<open>1234.5\<close> giving \<open>$1,234.50\<close>, \<open>0\<close> giving \<open>$0.00\<close> and
  \<open>-5\<close> giving \<open>-$5.00\<close>. The absolute value is rounded to cents, halves away from
  zero, as ECMA-402 rounds (half-expand); the integer digits are grouped by three; a
  negative amount carries a minus sign before the currency symbol.
\<close>

definition round_to_cents :: "number \<Rightarrow> nat" where
  "round_to_cents x = nat \<lfloor>\<bar>x\<bar> * 100 + 1 / 2\<rfloor>"

text \<open>Grouping works on the digits least significant first.\<close>

fun group_rev :: "string \<Rightarrow> string" where
  "group_rev (a # b # c # d # rest) = a # b # c # CHR '','' # group_rev (d # rest)"
| "group_rev ds = ds"

definition use_grouping :: "string \<Rightarrow> string" where
  "use_grouping ds = rev (group_rev (rev ds))"

definition format_cents :: "bool \<Rightarrow> nat \<Rightarrow> string" where
  "format_cents negative cents =
     (if negative then ''-'' else '''') @ ''$'' @ use_grouping (dec (cents div 100)) @ ''.'' @
     [digit_char (cents mod 100 div 10), digit_char (cents mod 10)]"

definition Intl_NumberFormat_format :: "number \<Rightarrow> string" where
  "Intl_NumberFormat_format x = format_cents (x < 0) (round_to_cents x)"

subsection \<open>Date: time values and the calendar (ECMA-262, Time Values and Time Range)\<close>

text \<open>
  Modelled from the spec: the built-in \<open>Date\<close>, whose code is not in the repository.
  The spec has the date as "a string in a date-parseable format", rendered with
  "locale-aware short-month/day/4-digit-year formatting", and "no timezone
  normalization is specified". A time value is a number of milliseconds since
  1970-01-01T00:00:00Z, or \<open>NaN\<close> (\<open>None\<close>) for an invalid date; the calendar
  functions are those ECMA-262 defines on time values.
\<close>

definition msPerDay :: int where
  "msPerDay = 86400000"

definition Day :: "int \<Rightarrow> int" where
  "Day t = t div msPerDay"

definition is_leap_year :: "int \<Rightarrow> bool" where
  "is_leap_year y = (y mod 4 = 0 \<and> (y mod 100 \<noteq> 0 \<or> y mod 400 = 0))"

definition DaysInYear :: "int \<Rightarrow> int" where
  "DaysInYear y = (if is_leap_year y then 366 else 365)"

definition DayFromYear :: "int \<Rightarrow> int" where
  "DayFromYear y =
     365 * (y - 1970) + (y - 1969) div 4 - (y - 1901) div 100 + (y - 1601) div 400"

text \<open>
  \<open>YearFromTime t\<close> is the largest year \<open>y\<close> whose first day is not after \<open>t\<close>. The
  search starts at a year that is not after the answer and walks up.
\<close>

function year_upto :: "int \<Rightarrow> int \<Rightarrow> int" where
  "year_upto d y = (if DayFromYear (y + 1) \<le> d then year_upto d (y + 1) else y)"
  by pat_completeness auto


definition YearFromDay :: "int \<Rightarrow> int" where
  "YearFromDay d = year_upto d (1970 + (if 0 \<le> d then d div 366 else d div 365))"

definition YearFromTime :: "int \<Rightarrow> int" where
  "YearFromTime t = YearFromDay (Day t)"

definition DayWithinYear :: "int \<Rightarrow> int" where
  "DayWithinYear t = Day t - DayFromYear (YearFromTime t)"

definition InLeapYear :: "int \<Rightarrow> int" where
  "InLeapYear t = (if is_leap_year (YearFromTime t) then 1 else 0)"

text \<open>Months are numbered from 0 (January) to 11 (December), as ECMA-262 numbers them.\<close>

definition month_start :: "int \<Rightarrow> int \<Rightarrow> int" where
  "month_start leap m =
     (if m = 0 then 0 else if m = 1 then 31 else
      (if m = 2 then 59 else if m = 3 then 90 else if m = 4 then 120
       else if m = 5 then 151 else if m = 6 then 181 else if m = 7 then 212
       else if m = 8 then 243 else if m = 9 then 273 else if m = 10 then 304
       else if m = 11 then 334 else 365) + leap)"

definition month_of_day :: "int \<Rightarrow> int \<Rightarrow> int" where
  "month_of_day leap dwy =
     (if dwy < 31 then 0 else if dwy < 59 + leap then 1 else if dwy < 90 + leap then 2
      else if dwy < 120 + leap then 3 else if dwy < 151 + leap then 4
      else if dwy < 181 + leap then 5 else if dwy < 212 + leap then 6
      else if dwy < 243 + leap then 7 else if dwy < 273 + leap then 8
      else if dwy < 304 + leap then 9 else if dwy < 334 + leap then 10 else 11)"

definition MonthFromTime :: "int \<Rightarrow> int" where
  "MonthFromTime t = month_of_day (InLeapYear t) (DayWithinYear t)"

definition DateFromTime :: "int \<Rightarrow> int" where
  "DateFromTime t = DayWithinYear t - month_start (InLeapYear t) (MonthFromTime t) + 1"

definition DaysInMonth :: "int \<Rightarrow> int \<Rightarrow> int" where
  "DaysInMonth y m =
     (let leap = (if is_leap_year y then 1 else 0)
      in month_start leap (m + 1) - month_start leap m)"

definition MakeDay :: "int \<Rightarrow> int \<Rightarrow> int \<Rightarrow> int" where
  "MakeDay y m dt =
     DayFromYear y + month_start (if is_leap_year y then 1 else 0) m + dt - 1"

subsection \<open>Date.parse and new Date(string)\<close>

text \<open>
  Modelled from the spec: \<open>Date.parse\<close>, whose code is not in the repository.
  ECMA-262 fixes the meaning of the date-time string format; of its forms the model
  reads the date-only form \<open>YYYY-MM-DD\<close> of a real calendar date, which denotes
  midnight UTC of that day. What any other string parses to is left to the
  implementation by ECMA-262, and to the parameter \<open>parse_other\<close> here. The offset of
  local time from UTC, in milliseconds and as a function of the UTC time, is the second
  parameter of the runtime.
\<close>

record platform =
  LocalTZA :: "int \<Rightarrow> int"
  parse_other :: "string \<Rightarrow> int option"

definition digits_val :: "string \<Rightarrow> int" where
  "digits_val ds = foldl (\<lambda>a c. 10 * a + digit_val c) 0 ds"

definition parse_iso_date :: "string \<Rightarrow> (int \<times> int \<times> int) option" where
  "parse_iso_date s =
     (if length s = 10 \<and> s ! 4 = CHR ''-'' \<and> s ! 7 = CHR ''-'' \<and>
         list_all is_digit (take 4 s @ take 2 (drop 5 s) @ drop 8 s)
      then
        (let y = digits_val (take 4 s);
             m = digits_val (take 2 (drop 5 s));
             d = digits_val (drop 8 s)
         in if 1 \<le> m \<and> m \<le> 12 \<and> 1 \<le> d \<and> d \<le> DaysInMonth y (m - 1)
            then Some (y, m, d) else None)
      else None)"

definition Date_parse :: "platform \<Rightarrow> string \<Rightarrow> int option" where
  "Date_parse env s =
     (case parse_iso_date s of
        Some (y, m, d) \<Rightarrow> Some (MakeDay y (m - 1) d * msPerDay)
      | None \<Rightarrow> parse_other env s)"

subsection \<open>Date.prototype.toLocaleDateString('en-US', {month: 'short', day: 'numeric', year: 'numeric'})\<close>

text \<open>
  Modelled from the spec: \<open>toLocaleDateString\<close>, whose code is not in the repository.
  The spec has \<open>2024-03-05\<close> shown as \<open>Mar 5, 2024\<close>, and an invalid date shown as
  the "invalid date" text of the platform "with no error raised". The source passes no
  \<open>timeZone\<close> option, so the date shown is the calendar date of the time value in
  local time. No era is asked for, so a year before year 1 is shown as its year of the
  era, without the era: ECMA-402 formats a year \<open>v\<close> that is not positive as
  \<open>1 - v\<close>.
\<close>

definition LocalTime :: "platform \<Rightarrow> int \<Rightarrow> int" where
  "LocalTime env t = t + LocalTZA env t"

definition month_abbr :: "int \<Rightarrow> string" where
  "month_abbr m =
     [''Jan'', ''Feb'', ''Mar'', ''Apr'', ''May'', ''Jun'',
      ''Jul'', ''Aug'', ''Sep'', ''Oct'', ''Nov'', ''Dec''] ! nat m"

definition year_of_era :: "int \<Rightarrow> int" where
  "year_of_era y = (if y \<le> 0 then 1 - y else y)"

definition format_date :: "int \<Rightarrow> int \<Rightarrow> int \<Rightarrow> string" where
  "format_date y m d =
     month_abbr m @ '' '' @ dec (nat d) @ '', '' @ dec (nat (year_of_era y))"

definition toLocaleDateString :: "platform \<Rightarrow> int option \<Rightarrow> string" where
  "toLocaleDateString env tv =
     (case tv of
        None \<Rightarrow> ''Invalid Date''
      | Some t \<Rightarrow>
          (let lt = LocalTime env t
           in format_date (YearFromTime lt) (MonthFromTime lt) (DateFromTime lt)))"

section \<open>React: elements, events and handlers\<close>

text \<open>
  A click handler runs in a world made of the event's propagation flag (set by
  \<open>e.stopPropagation()\<close>), the state the caller owns (what the \<open>onDelete\<close> callback
  may change), and a log of the calls made, in the order they were made.
\<close>

datatype call = StopPropagation | OnDelete number

record 's world =
  propagationStopped :: bool
  calls :: "call list"
  caller :: 's

definition stopPropagation :: "'s world \<Rightarrow> 's world" where
  "stopPropagation e =
     e\<lparr>propagationStopped := True, calls := calls e @ [StopPropagation]\<rparr>"

definition call_onDelete :: "(number \<Rightarrow> 's \<Rightarrow> 's) \<Rightarrow> number \<Rightarrow> 's world \<Rightarrow> 's world" where
  "call_onDelete f i e = e\<lparr>calls := calls e @ [OnDelete i], caller := f i (caller e)\<rparr>"

text \<open>
  The dispatch of a click is React's, not the repository's: a click on an element runs
  the element's own handler, then the handlers of its ancestors from the inside out,
  until one of them has stopped the propagation.
\<close>

fun bubble :: "('s world \<Rightarrow> 's world) list \<Rightarrow> 's world \<Rightarrow> 's world" where
  "bubble [] e = e"
| "bubble (h # hs) e = (if propagationStopped e then e else bubble hs (h e))"

definition dispatch_click ::
  "('s world \<Rightarrow> 's world) \<Rightarrow> ('s world \<Rightarrow> 's world) list \<Rightarrow> 's world \<Rightarrow> 's world" where
  "dispatch_click target ancestors e = bubble ancestors (target e)"

text \<open>
  The props of a host element that the component sets, and JSX values: an element, a
  string, or one of the values \<open>false\<close> and \<open>undefined\<close>, which React renders as
  nothing.
\<close>

record 's attrs =
  className :: "string option"
  dateTime :: "string option"
  ariaLabel :: "string option"
  style :: "(string \<times> string) list option"
  onClick :: "('s world \<Rightarrow> 's world) option"

definition no_attrs :: "'s attrs" where
  "no_attrs = \<lparr>className = None, dateTime = None, ariaLabel = None, style = None,
     onClick = None\<rparr>"

datatype 's jsx =
    Element string "'s attrs" "'s jsx list"
  | Text string
  | JsFalse
  | JsUndefined

text \<open>What a test or a browser reads off a rendered tree.\<close>

fun elements_by_tag :: "string \<Rightarrow> 's jsx \<Rightarrow> 's jsx list" where
  "elements_by_tag t (Element n a cs) =
     (if n = t then [Element n a cs] else []) @ concat (map (elements_by_tag t) cs)"
| "elements_by_tag t (Text s) = []"
| "elements_by_tag t JsFalse = []"
| "elements_by_tag t JsUndefined = []"

fun text_content :: "'s jsx \<Rightarrow> string" where
  "text_content (Element n a cs) = concat (map text_content cs)"
| "text_content (Text s) = s"
| "text_content JsFalse = []"
| "text_content JsUndefined = []"

fun attrs_of :: "'s jsx \<Rightarrow> 's attrs option" where
  "attrs_of (Element n a cs) = Some a"
| "attrs_of (Text s) = None"
| "attrs_of JsFalse = None"
| "attrs_of JsUndefined = None"

fun text_of :: "'s jsx \<Rightarrow> string option" where
  "text_of (Text s) = Some s"
| "text_of (Element n a cs) = None"
| "text_of JsFalse = None"
| "text_of JsUndefined = None"

fun child_texts :: "'s jsx \<Rightarrow> string list" where
  "child_texts (Element n a cs) = List.map_filter text_of cs"
| "child_texts (Text s) = []"
| "child_texts JsFalse = []"
| "child_texts JsUndefined = []"

definition class_of :: "'s jsx \<Rightarrow> string" where
  "class_of e = (case attrs_of e of None \<Rightarrow> [] | Some a \<Rightarrow>
     (case className a of None \<Rightarrow> [] | Some c \<Rightarrow> c))"

definition is_space :: "char \<Rightarrow> bool" where
  "is_space c = (c \<in> set [CHR '' '', CHR 0x09, CHR 0x0A, CHR 0x0C, CHR 0x0D])"

fun tokens_from :: "string \<Rightarrow> string \<Rightarrow> string list" where
  "tokens_from cur [] = (if cur = [] then [] else [cur])"
| "tokens_from cur (c # cs) =
     (if is_space c then (if cur = [] then [] else [cur]) @ tokens_from [] cs
      else tokens_from (cur @ [c]) cs)"

definition class_tokens :: "string \<Rightarrow> string list" where
  "class_tokens s = tokens_from [] s"

fun onClick_of :: "'s jsx \<Rightarrow> ('s world \<Rightarrow> 's world) option" where
  "onClick_of (Element n a cs) = onClick a"
| "onClick_of (Text s) = None"
| "onClick_of JsFalse = None"
| "onClick_of JsUndefined = None"

fun dateTime_of :: "'s jsx \<Rightarrow> string option" where
  "dateTime_of (Element n a cs) = dateTime a"
| "dateTime_of (Text s) = None"
| "dateTime_of JsFalse = None"
| "dateTime_of JsUndefined = None"

fun ariaLabel_of :: "'s jsx \<Rightarrow> string option" where
  "ariaLabel_of (Element n a cs) = ariaLabel a"
| "ariaLabel_of (Text s) = None"
| "ariaLabel_of JsFalse = None"
| "ariaLabel_of JsUndefined = None"

text \<open>A rendered tree with the class names and inline styles taken away.\<close>

fun erase_styling :: "'s jsx \<Rightarrow> 's jsx" where
  "erase_styling (Element n a cs) =
     Element n (a\<lparr>className := None, style := None\<rparr>) (map erase_styling cs)"
| "erase_styling (Text s) = Text s"
| "erase_styling JsFalse = JsFalse"
| "erase_styling JsUndefined = JsUndefined"

text \<open>
  A click on the element \<open>el\<close>, below ancestors whose click handlers are \<open>ancestors\<close>
  (innermost first).
\<close>

definition click :: "'s jsx \<Rightarrow> ('s world \<Rightarrow> 's world) list \<Rightarrow> 's world \<Rightarrow> 's world" where
  "click el ancestors e =
     (case onClick_of el of
        Some h \<Rightarrow> dispatch_click h ancestors e
      | None \<Rightarrow> bubble ancestors e)"

section \<open>The component\<close>

datatype ExpenseCategory = Food | Transportation | Entertainment | Other

text \<open>The type is a union of string literals: at run time a category is its string.\<close>

fun category_string :: "ExpenseCategory \<Rightarrow> string" where
  "category_string Food = ''Food''"
| "category_string Transportation = ''Transportation''"
| "category_string Entertainment = ''Entertainment''"
| "category_string Other = ''Other''"

text \<open>
  The props. An optional prop that the caller leaves out is \<open>undefined\<close>, here
  \<open>None\<close>. The field \<open>id\<close> of the source is \<open>id'\<close>.
\<close>

record 's ExpenseCardProps =
  id' :: number
  description :: string
  amount :: number
  category :: ExpenseCategory
  date :: string
  onDelete :: "(number \<Rightarrow> 's \<Rightarrow> 's) option"
  highlighted :: "bool option"
  showCategory :: "bool option"

subsection \<open>src/src/components/ExpenseCard/ExpenseCard.tsx\<close>

definition handleDelete :: "'s ExpenseCardProps \<Rightarrow> 's world \<Rightarrow> 's world" where
  "handleDelete props e =
     (let e1 = stopPropagation e
      in case onDelete props of
           Some f \<Rightarrow> call_onDelete f (id' props) e1
         | None \<Rightarrow> e1)"

definition ExpenseCard :: "platform \<Rightarrow> 's ExpenseCardProps \<Rightarrow> 's jsx" where
  "ExpenseCard env props =
     (let highlighted' = (case highlighted props of None \<Rightarrow> False | Some b \<Rightarrow> b);
          showCategory' = (case showCategory props of None \<Rightarrow> True | Some b \<Rightarrow> b);
          formattedAmount = Intl_NumberFormat_format (amount props);
          formattedDate = toLocaleDateString env (Date_parse env (date props))
      in
      Element ''article''
        (no_attrs\<lparr>className := Some (''expense-card '' @
           (if highlighted' then ''expense-card--highlighted'' else []))\<rparr>)
        [Element ''div'' (no_attrs\<lparr>className := Some ''expense-header''\<rparr>)
           [Text ''// UPDATED'',
            (if showCategory'
             then Element ''span'' (no_attrs\<lparr>className := Some ''expense-category''\<rparr>)
                    [Text (category_string (category props))]
             else JsFalse),
            Element ''time''
              (no_attrs\<lparr>className := Some ''expense-date'', dateTime := Some (date props)\<rparr>)
              [Text formattedDate]],
         Element ''div'' (no_attrs\<lparr>className := Some ''expense-body''\<rparr>)
           [Element ''h3'' (no_attrs\<lparr>className := Some ''expense-description''\<rparr>)
              [Text (description props)],
            Element ''p'' (no_attrs\<lparr>className := Some ''expense-amount''\<rparr>)
              [Text formattedAmount],
            Text ''// UPDATED'',
            (case onDelete props of
               None \<Rightarrow> JsUndefined
             | Some f \<Rightarrow>
                 Element ''button''
                   (no_attrs\<lparr>className := Some ''expense-delete'',
                      onClick := Some (handleDelete props),
                      ariaLabel := Some ''Delete expense'',
                      style := Some
                        [(''position'', ''absolute''), (''top'', ''8px''), (''right'', ''8px''),
                         (''background'', ''#ef4444''), (''color'', ''white''),
                         (''border'', ''none''), (''borderRadius'', ''50%''),
                         (''width'', ''24px''), (''height'', ''24px''),
                         (''cursor'', ''pointer''), (''fontSize'', ''16px''),
                         (''display'', ''flex''), (''alignItems'', ''center''),
                         (''justifyContent'', ''center'')]\<rparr>)
                   [Text [CHR 0xC3, CHR 0x97]])]])"

subsection \<open>src/unnamed/part_000\<close>

definition handleDelete_part_000 :: "'s ExpenseCardProps \<Rightarrow> 's world \<Rightarrow> 's world" where
  "handleDelete_part_000 props e =
     (let e1 = stopPropagation e
      in case onDelete props of
           Some f \<Rightarrow> call_onDelete f (id' props) e1
         | None \<Rightarrow> e1)"

definition ExpenseCard_part_000 :: "platform \<Rightarrow> 's ExpenseCardProps \<Rightarrow> 's jsx" where
  "ExpenseCard_part_000 env props =
     (let highlighted' = (case highlighted props of None \<Rightarrow> False | Some b \<Rightarrow> b);
          showCategory' = (case showCategory props of None \<Rightarrow> True | Some b \<Rightarrow> b);
          formattedAmount = Intl_NumberFormat_format (amount props);
          formattedDate = toLocaleDateString env (Date_parse env (date props))
      in
      Element ''article''
        (no_attrs\<lparr>className := Some (
           CHR 0x0A # ''      relative'' @
           CHR 0x0A # ''      bg-white rounded-lg p-4 mb-3 shadow-md'' @
           CHR 0x0A # ''      transition-all duration-200 border'' @
           CHR 0x0A # ''      hover:shadow-lg'' @
           CHR 0x0A # ''      '' @
           (if highlighted' then ''border-orange-500 bg-orange-50'' else ''border-blue-500''))\<rparr>)
        [Element ''div'' (no_attrs\<lparr>className := Some ''flex justify-between items-center mb-2''\<rparr>)
           [(if showCategory'
             then Element ''span''
                    (no_attrs\<lparr>className := Some
                       ''inline-block bg-blue-500 text-white px-2 py-1 rounded text-xs font-semibold uppercase''\<rparr>)
                    [Text (category_string (category props))]
             else JsFalse),
            Element ''time''
              (no_attrs\<lparr>className := Some ''text-gray-500 text-sm'',
                 dateTime := Some (date props)\<rparr>)
              [Text formattedDate]],
         Element ''div'' (no_attrs\<lparr>className := Some ''space-y-2''\<rparr>)
           [Element ''h3'' (no_attrs\<lparr>className := Some ''mb-2 text-base font-medium text-gray-900''\<rparr>)
              [Text (description props)],
            Element ''p'' (no_attrs\<lparr>className := Some ''text-green-600 text-lg font-bold m-0''\<rparr>)
              [Text formattedAmount],
            (case onDelete props of
               None \<Rightarrow> JsUndefined
             | Some f \<Rightarrow>
                 Element ''button''
                   (no_attrs\<lparr>className := Some (
                      CHR 0x0A # ''            absolute top-2 right-2'' @
                      CHR 0x0A # ''            bg-red-500 hover:bg-red-600'' @
                      CHR 0x0A # ''            text-white border-0 rounded-full'' @
                      CHR 0x0A # ''            w-6 h-6 cursor-pointer text-base'' @
                      CHR 0x0A # ''            flex items-center justify-center'' @
                      CHR 0x0A # ''            transition-colors duration-200'' @
                      CHR 0x0A # ''            focus:outline-none focus:ring-2 focus:ring-red-400'' @
                      CHR 0x0A # ''            ''),
                      onClick := Some (handleDelete_part_000 props),
                      ariaLabel := Some ''Delete expense''\<rparr>)
                   [Text ''x''])]])"

section \<open>The shape of a formatted amount\<close>

text \<open>
  What the spec calls symbol-prefixed, thousands-grouped, two-decimal currency text: an
  optional minus sign, the dollar sign, the integer digits in groups of three separated
  by commas (the leading group of one to three digits, with no leading zero unless the
  integer part is 0), a point and two digits. The check reads the text from its end.
\<close>

fun grouped_rev :: "string \<Rightarrow> bool" where
  "grouped_rev [] = False"
| "grouped_rev [a] = is_digit a"
| "grouped_rev [a, b] = (is_digit a \<and> is_digit b)"
| "grouped_rev [a, b, c] = (is_digit a \<and> is_digit b \<and> is_digit c)"
| "grouped_rev (a # b # c # k # rest) =
     (is_digit a \<and> is_digit b \<and> is_digit c \<and> k = CHR '','' \<and> grouped_rev rest)"

definition usd_shape :: "string \<Rightarrow> bool" where
  "usd_shape s =
     (let u = (case s of [] \<Rightarrow> s | c # r \<Rightarrow> if c = CHR ''-'' then r else s)
      in case u of
           [] \<Rightarrow> False
         | c # r \<Rightarrow>
             c = CHR ''$'' \<and>
             (case rev r of
                d2 # d1 # p # w \<Rightarrow>
                  is_digit d2 \<and> is_digit d1 \<and> p = CHR ''.'' \<and> grouped_rev w \<and>
                  (if last w = CHR ''0'' then w = ''0'' else True)
              | _ \<Rightarrow> False))"

section \<open>Example inputs\<close>

text \<open>
  Two runtimes: one whose local time is UTC, one five hours west of it (New York in
  winter). Neither parses anything but the date-only ISO form. The example caller keeps
  the list of the ids it was asked to delete.
\<close>

definition runtime_UTC :: platform where
  "runtime_UTC = \<lparr>LocalTZA = (\<lambda>t. 0), parse_other = (\<lambda>s. None)\<rparr>"

definition runtime_EST :: platform where
  "runtime_EST = \<lparr>LocalTZA = (\<lambda>t. - 18000000), parse_other = (\<lambda>s. None)\<rparr>"

definition example_props :: "number list ExpenseCardProps" where
  "example_props =
     \<lparr>id' = 7, description = ''Lunch'', amount = 1234.5, category = Food,
      date = ''2024-03-05'', onDelete = Some (\<lambda>i deleted. i # deleted),
      highlighted = None, showCategory = None\<rparr>"

definition fresh_click :: "number list world" where
  "fresh_click = \<lparr>propagationStopped = False, calls = [], caller = []\<rparr>"

section \<open>The calendar functions are correct\<close>

lemma div_step:
  fixes a n :: int
  assumes n: "1 < n"
  shows "(a + 1) div n = a div n + (if (a + 1) mod n = 0 then 1 else 0)"
proof -
  define q where "q = a div n"
  define r where "r = a mod n"
  have a: "a = n * q + r" by (simp add: q_def r_def)
  have r: "0 \<le> r" "r < n" using n by (simp_all add: r_def)
  show ?thesis
  proof (cases "r = n - 1")
    case True
    with a have eq: "a + 1 = n * (q + 1) + 0" by (simp add: algebra_simps)
    have "(a + 1) div n = q + 1"
      using eq n by (intro int_div_pos_eq[where r = 0]) simp_all
    moreover have "(a + 1) mod n = 0"
      using eq n by (intro int_mod_pos_eq[where q = "q + 1"]) simp_all
    ultimately show ?thesis by (simp add: q_def)
  next
    case False
    with r have r1: "r + 1 < n" by simp
    from a have eq: "a + 1 = n * q + (r + 1)" by simp
    have "(a + 1) div n = q"
      using eq r r1 by (intro int_div_pos_eq[where r = "r + 1"]) simp_all
    moreover have "(a + 1) mod n = r + 1"
      using eq r r1 by (intro int_mod_pos_eq[where q = q]) simp_all
    ultimately show ?thesis using r by (simp add: q_def)
  qed
qed

lemma DayFromYear_step: "DayFromYear (y + 1) = DayFromYear y + DaysInYear y"
proof -
  define A where "A = (y - 1969) div 4"
  define B where "B = (y - 1901) div 100"
  define C where "C = (y - 1601) div 400"
  define p4 where "p4 \<longleftrightarrow> y mod 4 = 0"
  define p100 where "p100 \<longleftrightarrow> y mod 100 = 0"
  define p400 where "p400 \<longleftrightarrow> y mod 400 = 0"
  have "y - 1969 + 1 = y + 4 * (- 492)" by simp
  then have m4: "(y - 1969 + 1) mod 4 = 0 \<longleftrightarrow> p4"
    unfolding p4_def by (simp only: mod_mult_self2)
  have "y - 1901 + 1 = y + 100 * (- 19)" by simp
  then have m100: "(y - 1901 + 1) mod 100 = 0 \<longleftrightarrow> p100"
    unfolding p100_def by (simp only: mod_mult_self2)
  have "y - 1601 + 1 = y + 400 * (- 4)" by simp
  then have m400: "(y - 1601 + 1) mod 400 = 0 \<longleftrightarrow> p400"
    unfolding p400_def by (simp only: mod_mult_self2)
  have i1: "p100 \<Longrightarrow> p4" unfolding p4_def p100_def by auto
  have i2: "p400 \<Longrightarrow> p100" unfolding p400_def p100_def by auto
  have e: "y + 1 - 1969 = y - 1969 + 1" "y + 1 - 1901 = y - 1901 + 1"
    "y + 1 - 1601 = y - 1601 + 1"
    by simp_all
  have n: "(1::int) < 4" "(1::int) < 100" "(1::int) < 400" by simp_all
  have a: "(y + 1 - 1969) div 4 = A + (if p4 then 1 else 0)"
    unfolding e A_def div_step[OF n(1)] m4 ..
  have b: "(y + 1 - 1901) div 100 = B + (if p100 then 1 else 0)"
    unfolding e B_def div_step[OF n(2)] m100 ..
  have c: "(y + 1 - 1601) div 400 = C + (if p400 then 1 else 0)"
    unfolding e C_def div_step[OF n(3)] m400 ..
  have l: "is_leap_year y \<longleftrightarrow> p4 \<and> (\<not> p100 \<or> p400)"
    unfolding is_leap_year_def p4_def p100_def p400_def ..
  have "DayFromYear (y + 1) = 365 * (y + 1 - 1970) + (A + (if p4 then 1 else 0))
      - (B + (if p100 then 1 else 0)) + (C + (if p400 then 1 else 0))"
    unfolding DayFromYear_def a b c ..
  moreover have "DayFromYear y = 365 * (y - 1970) + A - B + C"
    unfolding DayFromYear_def A_def B_def C_def ..
  moreover have "DaysInYear y = (if p4 \<and> (\<not> p100 \<or> p400) then 366 else 365)"
    unfolding DaysInYear_def l ..
  ultimately show ?thesis
    using i1 i2 by (cases p4; cases p100; cases p400) simp_all
qed

lemma DaysInYear_pos: "365 \<le> DaysInYear y"
  by (simp add: DaysInYear_def)

text \<open>The search for the year ends: every year has at least 365 days.\<close>

termination year_upto
proof (relation "measure (\<lambda>(d, y). nat (d + 1 - DayFromYear (y + 1)))")
  show "wf (measure (\<lambda>(d, y). nat (d + 1 - DayFromYear (y + 1))))"
    by simp
next
  fix d y :: int
  assume "DayFromYear (y + 1) \<le> d"
  moreover have "DayFromYear (y + 1 + 1) = DayFromYear (y + 1) + DaysInYear (y + 1)"
    by (rule DayFromYear_step)
  moreover have "365 \<le> DaysInYear (y + 1)"
    by (rule DaysInYear_pos)
  ultimately show "((d, y + 1), (d, y)) \<in> measure (\<lambda>(d, y). nat (d + 1 - DayFromYear (y + 1)))"
    by simp
qed

declare year_upto.simps [simp del]

lemma DaysInYear_le: "DaysInYear y \<le> 366"
  by (simp add: DaysInYear_def)

lemma DayFromYear_1970: "DayFromYear 1970 = 0"
  by (simp add: DayFromYear_def)

lemma DayFromYear_upper: "0 \<le> k \<Longrightarrow> DayFromYear (1970 + k) \<le> 366 * k"
proof (induction k rule: int_ge_induct)
  case base
  show ?case by (simp add: DayFromYear_1970)
next
  case (step i)
  have "DayFromYear (1970 + i + 1) = DayFromYear (1970 + i) + DaysInYear (1970 + i)"
    by (rule DayFromYear_step)
  moreover have "1970 + (i + 1) = 1970 + i + 1" by simp
  ultimately show ?case
    using step.IH DaysInYear_le[of "1970 + i"] by simp
qed

lemma DayFromYear_lower: "k \<le> 0 \<Longrightarrow> DayFromYear (1970 + k) \<le> 365 * k"
proof (induction k rule: int_le_induct)
  case base
  show ?case by (simp add: DayFromYear_1970)
next
  case (step i)
  have "DayFromYear (1970 + (i - 1) + 1) =
      DayFromYear (1970 + (i - 1)) + DaysInYear (1970 + (i - 1))"
    by (rule DayFromYear_step)
  moreover have "1970 + (i - 1) + 1 = 1970 + i" by simp
  ultimately show ?case
    using step.IH DaysInYear_pos[of "1970 + (i - 1)"] by simp
qed

lemma DayFromYear_mono: "a \<le> b \<Longrightarrow> DayFromYear a \<le> DayFromYear b"
proof (induction b rule: int_ge_induct)
  case base
  show ?case by simp
next
  case (step i)
  then show ?case
    using DayFromYear_step[of i] DaysInYear_pos[of i] by simp
qed

lemma year_unique:
  assumes "DayFromYear a \<le> d" "d < DayFromYear (a + 1)"
    and "DayFromYear b \<le> d" "d < DayFromYear (b + 1)"
  shows "a = b"
proof (rule ccontr)
  assume "a \<noteq> b"
  then consider "a + 1 \<le> b" | "b + 1 \<le> a" by linarith
  then show False
  proof cases
    case 1
    from DayFromYear_mono[OF this] assms show False by simp
  next
    case 2
    from DayFromYear_mono[OF this] assms show False by simp
  qed
qed

lemma year_upto_correct:
  "DayFromYear y0 \<le> d \<Longrightarrow>
   DayFromYear (year_upto d y0) \<le> d \<and> d < DayFromYear (year_upto d y0 + 1)"
proof (induction d y0 rule: year_upto.induct)
  case (1 d y)
  show ?case
  proof (cases "DayFromYear (y + 1) \<le> d")
    case True
    then have "year_upto d y = year_upto d (y + 1)"
      by (subst year_upto.simps) simp
    with 1(1)[OF True True] show ?thesis by simp
  next
    case False
    then have "year_upto d y = y"
      by (subst year_upto.simps) simp
    with False 1(2) show ?thesis by simp
  qed
qed

lemma year_start_ok:
  "DayFromYear (1970 + (if 0 \<le> d then d div 366 else d div 365)) \<le> d"
proof (cases "0 \<le> d")
  case True
  define k where "k = d div 366"
  define r where "r = d mod 366"
  have "d = 366 * k + r" by (simp add: k_def r_def)
  moreover have "0 \<le> r" by (simp add: r_def)
  moreover have "0 \<le> k" using True by (simp add: k_def pos_imp_zdiv_nonneg_iff)
  ultimately show ?thesis
    using True DayFromYear_upper[of k] by (simp add: k_def)
next
  case False
  define k where "k = d div 365"
  define r where "r = d mod 365"
  have "d = 365 * k + r" by (simp add: k_def r_def)
  moreover have "0 \<le> r" by (simp add: r_def)
  moreover have "k \<le> 0" using False by (simp add: k_def div_int_pos_iff not_le)
  ultimately show ?thesis
    using False DayFromYear_lower[of k] by (simp add: k_def)
qed

lemma YearFromDay_eq:
  assumes "DayFromYear y \<le> d" "d < DayFromYear (y + 1)"
  shows "YearFromDay d = y"
proof -
  have "DayFromYear (YearFromDay d) \<le> d \<and> d < DayFromYear (YearFromDay d + 1)"
    unfolding YearFromDay_def by (rule year_upto_correct[OF year_start_ok])
  then show ?thesis
    using assms year_unique by blast
qed

lemma month_cases:
  fixes m :: int
  assumes "0 \<le> m" "m \<le> 11"
  shows "m = 0 \<or> m = 1 \<or> m = 2 \<or> m = 3 \<or> m = 4 \<or> m = 5 \<or> m = 6 \<or> m = 7 \<or> m = 8
     \<or> m = 9 \<or> m = 10 \<or> m = 11"
  using assms by arith

lemma month_day_roundtrip:
  assumes m: "0 \<le> m" "m \<le> 11"
    and leap: "leap = 0 \<or> leap = 1"
    and d: "1 \<le> d" "d \<le> month_start leap (m + 1) - month_start leap m"
  shows "0 \<le> month_start leap m + d - 1 \<and>
     month_start leap m + d - 1 < 365 + leap \<and>
     month_of_day leap (month_start leap m + d - 1) = m"
  using month_cases[OF m] leap d
  by (elim disjE; simp add: month_start_def month_of_day_def)

lemma Day_of_time:
  assumes "0 \<le> off" "off < msPerDay"
  shows "Day (n * msPerDay + off) = n"
  using assms by (simp add: Day_def msPerDay_def div_pos_pos_trivial)

lemma civil_roundtrip:
  assumes m: "0 \<le> m" "m \<le> 11"
    and d: "1 \<le> d" "d \<le> DaysInMonth y m"
    and off: "0 \<le> off" "off < msPerDay"
  shows "YearFromTime (MakeDay y m d * msPerDay + off) = y \<and>
     MonthFromTime (MakeDay y m d * msPerDay + off) = m \<and>
     DateFromTime (MakeDay y m d * msPerDay + off) = d"
proof -
  define leap :: int where "leap = (if is_leap_year y then 1 else 0)"
  define t where "t = MakeDay y m d * msPerDay + off"
  have leap01: "leap = 0 \<or> leap = 1" by (simp add: leap_def)
  have d': "d \<le> month_start leap (m + 1) - month_start leap m"
    using d(2) by (simp add: DaysInMonth_def leap_def Let_def)
  note rt = month_day_roundtrip[OF m leap01 d(1) d']
  have diy: "DaysInYear y = 365 + leap" by (simp add: DaysInYear_def leap_def)
  have day: "Day t = DayFromYear y + (month_start leap m + d - 1)"
    unfolding t_def Day_of_time[OF off] by (simp add: MakeDay_def leap_def)
  have "DayFromYear y \<le> Day t" using rt day by simp
  moreover have "Day t < DayFromYear (y + 1)"
    using rt day diy DayFromYear_step[of y] by simp
  ultimately have year: "YearFromTime t = y"
    unfolding YearFromTime_def by (rule YearFromDay_eq)
  have dwy: "DayWithinYear t = month_start leap m + d - 1"
    by (simp add: DayWithinYear_def year day)
  have il: "InLeapYear t = leap" by (simp add: InLeapYear_def year leap_def)
  have month: "MonthFromTime t = m" using rt by (simp add: MonthFromTime_def dwy il)
  have "DateFromTime t = d" by (simp add: DateFromTime_def dwy il month)
  with year month show ?thesis by (simp add: t_def)
qed

lemma parse_iso_date_valid:
  assumes "parse_iso_date s = Some (y, m, d)"
  shows "1 \<le> m \<and> m \<le> 12 \<and> 1 \<le> d \<and> d \<le> DaysInMonth y (m - 1)"
  using assms by (auto simp: parse_iso_date_def Let_def split: if_splits)

lemma toLocaleDateString_iso:
  assumes p: "parse_iso_date s = Some (y, m, d)"
    and off: "0 \<le> LocalTZA env (MakeDay y (m - 1) d * msPerDay)"
      "LocalTZA env (MakeDay y (m - 1) d * msPerDay) < msPerDay"
  shows "toLocaleDateString env (Date_parse env s) = format_date y (m - 1) d"
proof -
  from parse_iso_date_valid[OF p] have v: "0 \<le> m - 1" "m - 1 \<le> 11" "1 \<le> d"
    "d \<le> DaysInMonth y (m - 1)" by simp_all
  from civil_roundtrip[OF v off] p show ?thesis
    by (simp add: toLocaleDateString_def Date_parse_def LocalTime_def Let_def)
qed

lemma YearFromTime_bounds:
  "DayFromYear (YearFromTime t) \<le> Day t \<and> Day t < DayFromYear (YearFromTime t + 1)"
  unfolding YearFromTime_def YearFromDay_def by (rule year_upto_correct[OF year_start_ok])

lemma DayWithinYear_range:
  "0 \<le> DayWithinYear t \<and> DayWithinYear t < 365 + InLeapYear t"
  using YearFromTime_bounds[of t] DayFromYear_step[of "YearFromTime t"]
  by (simp add: DayWithinYear_def InLeapYear_def DaysInYear_def split: if_splits)

lemma month_date_range:
  assumes "leap = 0 \<or> leap = 1" "0 \<le> dwy" "dwy < 365 + leap"
  shows "0 \<le> month_of_day leap dwy \<and> month_of_day leap dwy \<le> 11 \<and>
     1 \<le> dwy - month_start leap (month_of_day leap dwy) + 1 \<and>
     dwy - month_start leap (month_of_day leap dwy) + 1 \<le>
       month_start leap (month_of_day leap dwy + 1) - month_start leap (month_of_day leap dwy)"
  using assms by (auto simp: month_of_day_def month_start_def)

lemma civil_ranges:
  "0 \<le> MonthFromTime t \<and> MonthFromTime t \<le> 11 \<and> 1 \<le> DateFromTime t \<and>
   DateFromTime t \<le> DaysInMonth (YearFromTime t) (MonthFromTime t)"
proof -
  have "InLeapYear t = 0 \<or> InLeapYear t = 1" by (simp add: InLeapYear_def)
  from month_date_range[OF this] DayWithinYear_range[of t] show ?thesis
    by (simp add: MonthFromTime_def DateFromTime_def DaysInMonth_def InLeapYear_def Let_def)
qed

lemma civil_day: "MakeDay (YearFromTime t) (MonthFromTime t) (DateFromTime t) = Day t"
  by (simp add: MakeDay_def DateFromTime_def InLeapYear_def DayWithinYear_def)

lemma Day_of_time_west:
  assumes "- msPerDay \<le> off" "off < 0"
  shows "Day (n * msPerDay + off) = n - 1"
proof -
  have e: "n * msPerDay + off = (n - 1) * msPerDay + (off + msPerDay)"
    by (simp add: algebra_simps)
  have "Day ((n - 1) * msPerDay + (off + msPerDay)) = n - 1"
    using assms by (intro Day_of_time) simp_all
  then show ?thesis by (simp only: e)
qed

section \<open>Formatted amounts have the currency shape\<close>

lemma is_digit_digit_char: "is_digit (digit_char n)"
proof -
  define k where "k = n mod 10"
  have "k < 10" by (simp add: k_def)
  then have "k = 0 \<or> k = 1 \<or> k = 2 \<or> k = 3 \<or> k = 4 \<or> k = 5 \<or> k = 6 \<or> k = 7 \<or> k = 8 \<or> k = 9"
    by arith
  then have "is_digit (''0123456789'' ! k)"
    by (elim disjE) (simp_all add: is_digit_def)
  then show ?thesis by (simp add: digit_char_def k_def)
qed

lemma digit_char_zero: "k < 10 \<Longrightarrow> digit_char k = CHR ''0'' \<longleftrightarrow> k = 0"
proof -
  assume "k < 10"
  then have "k = 0 \<or> k = 1 \<or> k = 2 \<or> k = 3 \<or> k = 4 \<or> k = 5 \<or> k = 6 \<or> k = 7 \<or> k = 8 \<or> k = 9"
    by arith
  then show ?thesis
    by (elim disjE) (simp_all add: digit_char_def)
qed

lemma dec_digits: "dec n \<noteq> [] \<and> list_all is_digit (dec n)"
proof (induction n rule: dec.induct)
  case (1 n)
  show ?case
  proof (cases "n < 10")
    case True
    then show ?thesis by (subst dec.simps, subst dec.simps) (simp add: is_digit_digit_char)
  next
    case False
    with 1 show ?thesis by (subst dec.simps, subst dec.simps) (simp add: is_digit_digit_char)
  qed
qed

lemma dec_leading: "hd (dec n) = CHR ''0'' \<Longrightarrow> dec n = ''0''"
proof (induction n rule: dec.induct)
  case (1 n)
  show ?case
  proof (cases "n < 10")
    case True
    then have d: "dec n = [digit_char n]" by (subst dec.simps) simp
    with 1(2) True have "n = 0" by (simp add: digit_char_zero)
    with d show ?thesis by (simp add: digit_char_def)
  next
    case False
    then have d: "dec n = dec (n div 10) @ [digit_char (n mod 10)]" by (subst dec.simps) simp
    have ne: "dec (n div 10) \<noteq> []" using dec_digits by blast
    with d 1(2) have "hd (dec (n div 10)) = CHR ''0''" by simp
    with 1(1)[OF False] have z: "dec (n div 10) = ''0''" by simp
    have "0 < n div 10" using False by simp
    then have "\<not> n div 10 < 10 \<or> (n div 10 < 10 \<and> n div 10 \<noteq> 0)" by arith
    then show ?thesis
    proof
      assume big: "\<not> n div 10 < 10"
      have "dec (n div 10) = dec (n div 10 div 10) @ [digit_char (n div 10 mod 10)]"
        using big by (subst dec.simps) simp
      moreover have "dec (n div 10 div 10) \<noteq> []" using dec_digits by blast
      ultimately have "length (dec (n div 10)) \<ge> 2"
        by (cases "dec (n div 10 div 10)") simp_all
      with z show ?thesis by simp
    next
      assume small: "n div 10 < 10 \<and> n div 10 \<noteq> 0"
      then have "dec (n div 10) = [digit_char (n div 10)]" by (subst dec.simps) simp
      with z small show ?thesis by (simp add: digit_char_zero)
    qed
  qed
qed

lemma dec_length4:
  assumes "1000 \<le> n" "n \<le> 9999"
  shows "length (dec n) = 4"
proof -
  define n1 where "n1 = n div 10"
  define n2 where "n2 = n1 div 10"
  define n3 where "n3 = n2 div 10"
  have r1: "100 \<le> n1" "n1 \<le> 999" using assms unfolding n1_def by linarith+
  have r2: "10 \<le> n2" "n2 \<le> 99" using r1 unfolding n2_def by linarith+
  have r3: "1 \<le> n3" "n3 \<le> 9" using r2 unfolding n3_def by linarith+
  have a: "dec n = dec n1 @ [digit_char (n mod 10)]"
    using assms by (subst dec.simps) (simp add: n1_def)
  have b: "dec n1 = dec n2 @ [digit_char (n1 mod 10)]"
    using r1 by (subst dec.simps) (simp add: n2_def)
  have c: "dec n2 = dec n3 @ [digit_char (n2 mod 10)]"
    using r2 by (subst dec.simps) (simp add: n3_def)
  have d: "dec n3 = [digit_char n3]"
    using r3 by (subst dec.simps) simp
  show ?thesis by (simp add: a b c d)
qed

lemma grouped_rev_group_rev:
  "ds \<noteq> [] \<Longrightarrow> list_all is_digit ds \<Longrightarrow> grouped_rev (group_rev ds)"
  by (induction ds rule: group_rev.induct) simp_all

lemma group_rev_Nil: "group_rev ds = [] \<longleftrightarrow> ds = []"
  by (induction ds rule: group_rev.induct) simp_all

lemma last_group_rev: "ds \<noteq> [] \<Longrightarrow> last (group_rev ds) = last ds"
  by (induction ds rule: group_rev.induct) (simp_all add: group_rev_Nil)

lemma usd_shape_format_cents: "usd_shape (format_cents negative cents)"
proof -
  define ds where "ds = rev (dec (cents div 100))"
  define G where "G = group_rev ds"
  define d1 where "d1 = digit_char (cents mod 100 div 10)"
  define d2 where "d2 = digit_char (cents mod 10)"
  have ds: "ds \<noteq> []" "list_all is_digit ds"
    using dec_digits[of "cents div 100"] by (simp_all add: ds_def)
  have g: "grouped_rev G"
    unfolding G_def by (rule grouped_rev_group_rev[OF ds])
  have lead: "(if last G = CHR ''0'' then G = ''0'' else True)"
  proof (cases "last G = CHR ''0''")
    case True
    then have "last ds = CHR ''0''" by (simp add: G_def last_group_rev[OF ds(1)])
    then have "hd (dec (cents div 100)) = CHR ''0''"
      using ds(1) by (simp add: ds_def last_rev)
    then have "dec (cents div 100) = ''0''" by (rule dec_leading)
    then have "G = ''0''" by (simp add: G_def ds_def)
    with True show ?thesis by simp
  next
    case False
    then show ?thesis by simp
  qed
  have f: "format_cents negative cents =
      (if negative then ''-'' else []) @ CHR ''$'' # rev (d2 # d1 # CHR ''.'' # G)"
    by (simp add: format_cents_def use_grouping_def G_def ds_def d1_def d2_def)
  show ?thesis
    unfolding f usd_shape_def using g lead
    by (simp add: d1_def d2_def is_digit_digit_char)
qed

lemma usd_shape_format: "usd_shape (Intl_NumberFormat_format x)"
  unfolding Intl_NumberFormat_format_def by (rule usd_shape_format_cents)

lemma round_examples:
  "round_to_cents 1234.5 = 123450" "round_to_cents 0 = 0" "round_to_cents (- 5) = 500"
proof -
  have "\<lfloor>\<bar>1234.5 :: rat\<bar> * 100 + 1 / 2\<rfloor> = 123450"
    by (rule floor_unique) simp_all
  then show "round_to_cents 1234.5 = 123450" by (simp add: round_to_cents_def)
  show "round_to_cents 0 = 0" by (simp add: round_to_cents_def)
  have "\<lfloor>\<bar>- 5 :: rat\<bar> * 100 + 1 / 2\<rfloor> = 500"
    by (rule floor_unique) simp_all
  then show "round_to_cents (- 5) = 500" by (simp add: round_to_cents_def)
qed

lemma format_cents_examples:
  "format_cents False 123450 = ''$1,234.50''" "format_cents False 0 = ''$0.00''"
  "format_cents True 500 = ''-$5.00''"
  by (simp_all add: format_cents_def use_grouping_def dec.simps digit_char_def)

lemma format_examples:
  "Intl_NumberFormat_format 1234.5 = ''$1,234.50''"
  "Intl_NumberFormat_format 0 = ''$0.00''"
  "Intl_NumberFormat_format (- 5) = ''-$5.00''"
  using round_examples
  by (simp_all add: Intl_NumberFormat_format_def format_cents_examples)

section \<open>The claims\<close>

subsection \<open>The delete click\<close>

lemma bubble_stopped: "propagationStopped e \<Longrightarrow> bubble hs e = e"
  by (cases hs) simp_all

text \<open>
  C1. Where \<open>onDelete\<close> is supplied, the card has exactly one delete button, and a
  click on it, below any ancestors with click handlers of their own, stops the
  propagation first and then calls \<open>onDelete\<close> once with the id of the props: the log
  grows by exactly these two calls in this order, the caller's state is what one call
  of the callback makes of it, and no ancestor handler runs. Both files.
\<close>

theorem delete_click:
  assumes "onDelete props = Some f"
  shows "(\<exists>btn. elements_by_tag ''button'' (ExpenseCard env props) = [btn] \<and>
      click btn ancestors e =
        e\<lparr>propagationStopped := True,
          calls := calls e @ [StopPropagation, OnDelete (id' props)],
          caller := f (id' props) (caller e)\<rparr>) \<and>
     (\<exists>btn. elements_by_tag ''button'' (ExpenseCard_part_000 env props) = [btn] \<and>
      click btn ancestors e =
        e\<lparr>propagationStopped := True,
          calls := calls e @ [StopPropagation, OnDelete (id' props)],
          caller := f (id' props) (caller e)\<rparr>)"
  using assms
  by (simp add: ExpenseCard_def ExpenseCard_part_000_def Let_def click_def dispatch_click_def
      handleDelete_def handleDelete_part_000_def stopPropagation_def call_onDelete_def
      bubble_stopped no_attrs_def)

text \<open>
  The example card, clicked below an ancestor whose handler would ask to delete
  expense 99: only expense 7 is deleted.
\<close>

theorem delete_click_witness:
  "(\<exists>btn. elements_by_tag ''button'' (ExpenseCard runtime_UTC example_props) = [btn] \<and>
      click btn [call_onDelete (\<lambda>i deleted. i # deleted) 99] fresh_click =
        \<lparr>propagationStopped = True, calls = [StopPropagation, OnDelete 7], caller = [7]\<rparr>) \<and>
   (\<exists>btn. elements_by_tag ''button'' (ExpenseCard_part_000 runtime_UTC example_props) = [btn] \<and>
      click btn [call_onDelete (\<lambda>i deleted. i # deleted) 99] fresh_click =
        \<lparr>propagationStopped = True, calls = [StopPropagation, OnDelete 7], caller = [7]\<rparr>)"
proof -
  have "onDelete example_props = Some (\<lambda>i deleted. i # deleted)"
    by (simp add: example_props_def)
  from delete_click[OF this, of runtime_UTC
      "[call_onDelete (\<lambda>i deleted. i # deleted) 99]" fresh_click]
  show ?thesis
    by (simp add: example_props_def fresh_click_def)
qed

subsection \<open>The date text\<close>

lemma parse_examples:
  "parse_iso_date ''2024-03-05'' = Some (2024, 3, 5)"
  "parse_iso_date ''2023-12-01'' = Some (2023, 12, 1)"
  by code_simp+

lemma utc_steps:
  "Date_parse runtime_UTC ''2024-03-05'' = Some 1709596800000"
  "YearFromTime 1709596800000 = 2024"
  "Date_parse runtime_UTC ''2023-12-01'' = Some 1701388800000"
  "YearFromTime 1701388800000 = 2023"
  by code_simp+

lemma est_steps:
  "Date_parse runtime_EST ''2024-03-05'' = Some 1709596800000"
  "YearFromTime 1709578800000 = 2024"
  "MonthFromTime 1709578800000 = 2"
  "DateFromTime 1709578800000 = 4"
  by code_simp+

lemma est_date:
  "toLocaleDateString runtime_EST (Date_parse runtime_EST ''2024-03-05'') = ''Mar 4, 2024''"
  unfolding est_steps(1)
  by (simp add: toLocaleDateString_def LocalTime_def runtime_EST_def est_steps format_date_def
      year_of_era_def month_abbr_def dec.simps digit_char_def)

lemma year_of_era_text:
  assumes "1000 \<le> Y" "Y \<le> 9999"
  shows "length (dec (nat (year_of_era Y))) = 4"
proof -
  have "1000 \<le> nat Y" "nat Y \<le> 9999" using assms by linarith+
  from dec_length4[OF this] assms show ?thesis by (simp add: year_of_era_def)
qed

lemma time_text:
  "map text_content (elements_by_tag ''time'' (ExpenseCard env props)) =
     [toLocaleDateString env (Date_parse env (date props))]"
  "map text_content (elements_by_tag ''time'' (ExpenseCard_part_000 env props)) =
     [toLocaleDateString env (Date_parse env (date props))]"
  by (simp_all add: ExpenseCard_def ExpenseCard_part_000_def Let_def split: option.splits)

text \<open>
  C2 (as amended). For every date string that parses, to the time value \<open>t\<close>, the
  rendered date text of both files is \<open>Mon D, Y\<close> for the calendar date
  \<open>(Y, M, D)\<close> that \<open>t\<close> has in the local time of the runtime: \<open>M\<close> is one of the
  twelve months, shown by its English abbreviation, \<open>D\<close> is a day of that month, the
  date \<open>(Y, M, D)\<close> is the day that the local time falls on, and the year is shown
  with four digits for the years 1000 to 9999. A date-only string \<open>YYYY-MM-DD\<close> is
  parsed as midnight UTC of that day, so the card shows the date written in the string
  where the local offset from UTC at that instant is at least 0 and less than one day,
  and the day before it where the offset is negative, down to one day.
\<close>

theorem date_text_local:
  assumes "Date_parse env (date props) = Some t"
  shows "(let lt = LocalTime env t;
          Y = YearFromTime lt; M = MonthFromTime lt; D = DateFromTime lt
      in map text_content (elements_by_tag ''time'' (ExpenseCard env props)) =
           [month_abbr M @ '' '' @ dec (nat D) @ '', '' @ dec (nat (year_of_era Y))] \<and>
         map text_content (elements_by_tag ''time'' (ExpenseCard_part_000 env props)) =
           [month_abbr M @ '' '' @ dec (nat D) @ '', '' @ dec (nat (year_of_era Y))] \<and>
         0 \<le> M \<and> M \<le> 11 \<and> 1 \<le> D \<and> D \<le> DaysInMonth Y M \<and>
         MakeDay Y M D = Day lt \<and>
         (if 1000 \<le> Y \<and> Y \<le> 9999 then length (dec (nat (year_of_era Y))) = 4 else True) \<and>
         (parse_iso_date (date props) = Some (y, m, d) \<longrightarrow>
            (0 \<le> LocalTZA env t \<and> LocalTZA env t < msPerDay \<longrightarrow>
               Y = y \<and> M = m - 1 \<and> D = d) \<and>
            (- msPerDay \<le> LocalTZA env t \<and> LocalTZA env t < 0 \<longrightarrow>
               MakeDay Y M D = MakeDay y (m - 1) d - 1)))"
proof -
  define lt where "lt = LocalTime env t"
  define Y where "Y = YearFromTime lt"
  define M where "M = MonthFromTime lt"
  define D where "D = DateFromTime lt"
  have shown: "toLocaleDateString env (Date_parse env (date props)) =
      month_abbr M @ '' '' @ dec (nat D) @ '', '' @ dec (nat (year_of_era Y))"
    by (simp add: assms toLocaleDateString_def Let_def format_date_def lt_def Y_def M_def D_def)
  have ranges: "0 \<le> M \<and> M \<le> 11 \<and> 1 \<le> D \<and> D \<le> DaysInMonth Y M"
    unfolding Y_def M_def D_def by (rule civil_ranges)
  have day: "MakeDay Y M D = Day lt"
    unfolding Y_def M_def D_def by (rule civil_day)
  have digits: "if 1000 \<le> Y \<and> Y \<le> 9999 then length (dec (nat (year_of_era Y))) = 4 else True"
    by (simp add: year_of_era_text)
  have t: "t = MakeDay y (m - 1) d * msPerDay"
    if p: "parse_iso_date (date props) = Some (y, m, d)"
    using p assms by (simp add: Date_parse_def)
  have east: "Y = y \<and> M = m - 1 \<and> D = d"
    if p: "parse_iso_date (date props) = Some (y, m, d)"
      and off: "0 \<le> LocalTZA env t" "LocalTZA env t < msPerDay"
  proof -
    from parse_iso_date_valid[OF p] have v: "0 \<le> m - 1" "m - 1 \<le> 11" "1 \<le> d"
      "d \<le> DaysInMonth y (m - 1)" by simp_all
    from off have off': "0 \<le> LocalTZA env (MakeDay y (m - 1) d * msPerDay)"
      "LocalTZA env (MakeDay y (m - 1) d * msPerDay) < msPerDay"
      by (simp_all add: t[OF p, symmetric])
    from civil_roundtrip[OF v off'] show ?thesis
      by (simp add: Y_def M_def D_def lt_def LocalTime_def t[OF p])
  qed
  have west: "MakeDay Y M D = MakeDay y (m - 1) d - 1"
    if p: "parse_iso_date (date props) = Some (y, m, d)"
      and off: "- msPerDay \<le> LocalTZA env t" "LocalTZA env t < 0"
  proof -
    have "Day (MakeDay y (m - 1) d * msPerDay + LocalTZA env t) = MakeDay y (m - 1) d - 1"
      using off by (rule Day_of_time_west)
    then have "Day lt = MakeDay y (m - 1) d - 1"
      unfolding lt_def LocalTime_def by (simp add: t[OF p, symmetric])
    with day show ?thesis by simp
  qed
  show ?thesis
    unfolding Let_def time_text shown lt_def[symmetric] Y_def[symmetric] M_def[symmetric]
      D_def[symmetric]
    using ranges day digits east west by blast
qed

text \<open>
  In a runtime on UTC the two dates of the spec render as the spec has them.
\<close>

theorem date_text_local_witness:
  "map text_content (elements_by_tag ''time''
       (ExpenseCard runtime_UTC (example_props\<lparr>date := ''2024-03-05''\<rparr>))) = [''Mar 5, 2024''] \<and>
   map text_content (elements_by_tag ''time''
       (ExpenseCard_part_000 runtime_UTC (example_props\<lparr>date := ''2024-03-05''\<rparr>))) =
     [''Mar 5, 2024''] \<and>
   map text_content (elements_by_tag ''time''
       (ExpenseCard runtime_UTC (example_props\<lparr>date := ''2023-12-01''\<rparr>))) = [''Dec 1, 2023''] \<and>
   map text_content (elements_by_tag ''time''
       (ExpenseCard_part_000 runtime_UTC (example_props\<lparr>date := ''2023-12-01''\<rparr>))) =
     [''Dec 1, 2023'']"
proof -
  have a: "Date_parse runtime_UTC (date (example_props\<lparr>date := ''2024-03-05''\<rparr>)) =
      Some 1709596800000"
    and b: "Date_parse runtime_UTC (date (example_props\<lparr>date := ''2023-12-01''\<rparr>)) =
      Some 1701388800000"
    by (simp_all add: utc_steps)
  have z: "0 \<le> LocalTZA runtime_UTC t \<and> LocalTZA runtime_UTC t < msPerDay" for t
    by (simp add: runtime_UTC_def msPerDay_def)
  from date_text_local[OF a, of 2024 3 5] date_text_local[OF b, of 2023 12 1]
  show ?thesis
    by (simp add: Let_def parse_examples z year_of_era_def month_abbr_def dec.simps
        digit_char_def)
qed

text \<open>
  The claim as the spec states it fails five hours west of UTC: there the card shows
  the day before the date of the string.
\<close>

theorem date_text_west_of_UTC:
  "map text_content (elements_by_tag ''time''
       (ExpenseCard runtime_EST (example_props\<lparr>date := ''2024-03-05''\<rparr>))) = [''Mar 4, 2024'']"
  by (simp add: time_text est_date)

subsection \<open>The amount text\<close>

text \<open>
  C3. For every amount the amount text of both files is the US-dollar text of the
  amount: it has the shape of symbol-prefixed, thousands-grouped, two-decimal currency
  text, and \<open>1234.5\<close>, \<open>0\<close> and \<open>-5\<close> give \<open>$1,234.50\<close>, \<open>$0.00\<close> and \<open>-$5.00\<close>.
\<close>

theorem amount_text_currency:
  "map text_content (elements_by_tag ''p'' (ExpenseCard env props)) =
     [Intl_NumberFormat_format (amount props)] \<and>
   map text_content (elements_by_tag ''p'' (ExpenseCard_part_000 env props)) =
     [Intl_NumberFormat_format (amount props)] \<and>
   usd_shape (Intl_NumberFormat_format (amount props)) \<and>
   map text_content (elements_by_tag ''p'' (ExpenseCard env (props\<lparr>amount := 1234.5\<rparr>))) =
     [''$1,234.50''] \<and>
   map text_content (elements_by_tag ''p'' (ExpenseCard env (props\<lparr>amount := 0\<rparr>))) =
     [''$0.00''] \<and>
   map text_content (elements_by_tag ''p'' (ExpenseCard env (props\<lparr>amount := - 5\<rparr>))) =
     [''-$5.00''] \<and>
   map text_content
     (elements_by_tag ''p'' (ExpenseCard_part_000 env (props\<lparr>amount := 1234.5\<rparr>))) =
     [''$1,234.50''] \<and>
   map text_content (elements_by_tag ''p'' (ExpenseCard_part_000 env (props\<lparr>amount := 0\<rparr>))) =
     [''$0.00''] \<and>
   map text_content (elements_by_tag ''p'' (ExpenseCard_part_000 env (props\<lparr>amount := - 5\<rparr>))) =
     [''-$5.00'']"
proof -
  have a: "map text_content (elements_by_tag ''p'' (ExpenseCard env q)) =
     [Intl_NumberFormat_format (amount q)]" for q :: "'a ExpenseCardProps"
    by (simp add: ExpenseCard_def Let_def split: option.splits)
  have b: "map text_content (elements_by_tag ''p'' (ExpenseCard_part_000 env q)) =
     [Intl_NumberFormat_format (amount q)]" for q :: "'a ExpenseCardProps"
    by (simp add: ExpenseCard_part_000_def Let_def split: option.splits)
  show ?thesis
    unfolding a b using format_examples by (simp add: usd_shape_format)
qed

subsection \<open>The delete button and onDelete\<close>

text \<open>
  C4. The card has one delete button where \<open>onDelete\<close> is supplied and none where it
  is not, in both files.
\<close>

theorem delete_control_iff_onDelete:
  "length (elements_by_tag ''button'' (ExpenseCard env props)) =
     (if onDelete props = None then 0 else 1) \<and>
   length (elements_by_tag ''button'' (ExpenseCard_part_000 env props)) =
     (if onDelete props = None then 0 else 1)"
  by (simp add: ExpenseCard_def ExpenseCard_part_000_def Let_def split: option.splits)

subsection \<open>The category badge\<close>

text \<open>
  C5. With \<open>showCategory = false\<close> the card has no category badge, whatever the
  category; with \<open>showCategory\<close> left out (or \<open>true\<close>) it has one badge, and the text
  of the badge is the category itself. Both files.
\<close>

theorem category_badge:
  "elements_by_tag ''span'' (ExpenseCard env (props\<lparr>showCategory := Some False\<rparr>)) = [] \<and>
   elements_by_tag ''span'' (ExpenseCard_part_000 env (props\<lparr>showCategory := Some False\<rparr>)) = [] \<and>
   map child_texts (elements_by_tag ''span'' (ExpenseCard env (props\<lparr>showCategory := None\<rparr>))) =
     [[category_string (category props)]] \<and>
   map child_texts
     (elements_by_tag ''span'' (ExpenseCard_part_000 env (props\<lparr>showCategory := None\<rparr>))) =
     [[category_string (category props)]] \<and>
   map child_texts
     (elements_by_tag ''span'' (ExpenseCard env (props\<lparr>showCategory := Some True\<rparr>))) =
     [[category_string (category props)]] \<and>
   map child_texts
     (elements_by_tag ''span'' (ExpenseCard_part_000 env (props\<lparr>showCategory := Some True\<rparr>))) =
     [[category_string (category props)]]"
  by (simp add: ExpenseCard_def ExpenseCard_part_000_def Let_def List.map_filter_simps
      split: option.splits)

subsection \<open>The highlighted style\<close>

lemma highlighted_default:
  "(case highlighted props of None \<Rightarrow> False | Some b \<Rightarrow> b) = (highlighted props = Some True)"
  by (cases "highlighted props") auto

text \<open>
  C6. The classes of the root element are the base classes, and with them the classes
  of the highlighted style exactly when \<open>highlighted\<close> is \<open>true\<close>: in the first file
  \<open>expense-card--highlighted\<close> beside \<open>expense-card\<close>; in the second file
  \<open>border-orange-500 bg-orange-50\<close> in the place of the \<open>border-blue-500\<close> of the
  normal style.
\<close>

theorem highlighted_class:
  "class_tokens (class_of (ExpenseCard env props)) =
     (if highlighted props = Some True
      then [''expense-card'', ''expense-card--highlighted'']
      else [''expense-card'']) \<and>
   class_tokens (class_of (ExpenseCard_part_000 env props)) =
     [''relative'', ''bg-white'', ''rounded-lg'', ''p-4'', ''mb-3'', ''shadow-md'',
      ''transition-all'', ''duration-200'', ''border'', ''hover:shadow-lg''] @
     (if highlighted props = Some True
      then [''border-orange-500'', ''bg-orange-50'']
      else [''border-blue-500''])"
proof (cases "highlighted props = Some True")
  case True
  then show ?thesis
    by (simp add: ExpenseCard_def ExpenseCard_part_000_def Let_def class_of_def
        class_tokens_def is_space_def no_attrs_def)
next
  case False
  with highlighted_default[of props] show ?thesis
    by (simp add: ExpenseCard_def ExpenseCard_part_000_def Let_def class_of_def
        class_tokens_def is_space_def no_attrs_def)
qed

subsection \<open>A date that does not parse\<close>

lemma parse_garbage: "Date_parse runtime_UTC ''not a date'' = None"
  by code_simp

text \<open>
  C7. Where the date string does not parse, the card is rendered all the same, in both
  files: the \<open>time\<close> element carries the string as its \<open>dateTime\<close> and shows
  \<open>Invalid Date\<close>, and the description and the amount are rendered as ever. The
  render has no branch that validates the date or raises.
\<close>

theorem invalid_date:
  assumes "Date_parse env (date props) = None"
  shows "map (\<lambda>t. (dateTime_of t, text_content t))
       (elements_by_tag ''time'' (ExpenseCard env props)) =
       [(Some (date props), ''Invalid Date'')] \<and>
     map (\<lambda>t. (dateTime_of t, text_content t))
       (elements_by_tag ''time'' (ExpenseCard_part_000 env props)) =
       [(Some (date props), ''Invalid Date'')] \<and>
     map text_content (elements_by_tag ''h3'' (ExpenseCard env props)) = [description props] \<and>
     map text_content (elements_by_tag ''h3'' (ExpenseCard_part_000 env props)) =
       [description props] \<and>
     map text_content (elements_by_tag ''p'' (ExpenseCard env props)) =
       [Intl_NumberFormat_format (amount props)] \<and>
     map text_content (elements_by_tag ''p'' (ExpenseCard_part_000 env props)) =
       [Intl_NumberFormat_format (amount props)]"
  using assms
  by (simp add: ExpenseCard_def ExpenseCard_part_000_def Let_def toLocaleDateString_def
      no_attrs_def split: option.splits)

theorem invalid_date_witness:
  "map (\<lambda>t. (dateTime_of t, text_content t))
     (elements_by_tag ''time'' (ExpenseCard runtime_UTC (example_props\<lparr>date := ''not a date''\<rparr>))) =
     [(Some ''not a date'', ''Invalid Date'')] \<and>
   map (\<lambda>t. (dateTime_of t, text_content t))
     (elements_by_tag ''time''
       (ExpenseCard_part_000 runtime_UTC (example_props\<lparr>date := ''not a date''\<rparr>))) =
     [(Some ''not a date'', ''Invalid Date'')]"
proof -
  have "Date_parse runtime_UTC (date (example_props\<lparr>date := ''not a date''\<rparr>)) = None"
    by (simp add: parse_garbage)
  from invalid_date[OF this] show ?thesis by simp
qed

subsection \<open>The two files\<close>

lemma handleDelete_same: "handleDelete_part_000 props = handleDelete props"
  by (rule ext) (simp add: handleDelete_def handleDelete_part_000_def)

text \<open>
  C9 (as amended). For every props input the two files render the same amount text,
  date text and \<open>dateTime\<close>, description and category badge (present or not, and its
  text), and the same delete button (present or not, its label for assistive
  technology, and what a click on it does).
\<close>

theorem variants_agree:
  "map text_content (elements_by_tag ''p'' (ExpenseCard env props)) =
     map text_content (elements_by_tag ''p'' (ExpenseCard_part_000 env props)) \<and>
   map text_content (elements_by_tag ''time'' (ExpenseCard env props)) =
     map text_content (elements_by_tag ''time'' (ExpenseCard_part_000 env props)) \<and>
   map dateTime_of (elements_by_tag ''time'' (ExpenseCard env props)) =
     map dateTime_of (elements_by_tag ''time'' (ExpenseCard_part_000 env props)) \<and>
   map text_content (elements_by_tag ''h3'' (ExpenseCard env props)) =
     map text_content (elements_by_tag ''h3'' (ExpenseCard_part_000 env props)) \<and>
   map text_content (elements_by_tag ''span'' (ExpenseCard env props)) =
     map text_content (elements_by_tag ''span'' (ExpenseCard_part_000 env props)) \<and>
   map ariaLabel_of (elements_by_tag ''button'' (ExpenseCard env props)) =
     map ariaLabel_of (elements_by_tag ''button'' (ExpenseCard_part_000 env props)) \<and>
   map (\<lambda>b. click b ancestors e) (elements_by_tag ''button'' (ExpenseCard env props)) =
     map (\<lambda>b. click b ancestors e) (elements_by_tag ''button'' (ExpenseCard_part_000 env props))"
  by (simp add: ExpenseCard_def ExpenseCard_part_000_def Let_def click_def no_attrs_def
      handleDelete_same split: option.splits)

text \<open>
  The two files differ in more than class names and inline styles: with these taken
  away the trees of the example still differ, and so does the text a reader sees.
\<close>

theorem variants_differ_beyond_styling:
  "erase_styling (ExpenseCard runtime_UTC example_props) \<noteq>
     erase_styling (ExpenseCard_part_000 runtime_UTC example_props) \<and>
   text_content (ExpenseCard runtime_UTC example_props) \<noteq>
     text_content (ExpenseCard_part_000 runtime_UTC example_props)"
  by (simp add: ExpenseCard_def ExpenseCard_part_000_def Let_def example_props_def)

subsection \<open>The dateTime attribute and the stray text of the first file\<close>

text \<open>
  C10. In the first file the \<open>time\<close> element carries the date string of the props as
  its \<open>dateTime\<close>, whatever the string, and each of the two \<open>div\<close> elements, header
  and body, has the text \<open>// UPDATED\<close> as its one text child.
\<close>

theorem dateTime_and_stray_text:
  "map dateTime_of (elements_by_tag ''time'' (ExpenseCard env props)) = [Some (date props)] \<and>
   map (\<lambda>d. (class_of d, child_texts d)) (elements_by_tag ''div'' (ExpenseCard env props)) =
     [(''expense-header'', [''// UPDATED'']), (''expense-body'', [''// UPDATED''])]"
  by (simp add: ExpenseCard_def Let_def class_of_def no_attrs_def List.map_filter_simps
      split: option.splits)

end
